theory Spec2Isabelle
  imports Main "HOL-Library.Sublist"
begin

section \<open>Python strings and the character classes the validators rely on\<close>

text \<open>
  A Python \<open>str\<close> is a sequence of Unicode code points, and \<open>len\<close> counts code points.
  A string is therefore a list of code points (natural numbers), not a list of bytes.
  String literals of the source are written \<open>py ''...''\<close>.
\<close>

type_synonym py_str = "nat list"

definition py :: "string \<Rightarrow> py_str" where
  "py s = map of_char s"

text \<open>
  The regular-expression class \<open>\d\<close> on a \<open>str\<close> pattern, \<open>int\<close> on a one-character string
  and \<open>str.isdecimal\<close> all use the Unicode property "decimal digit" (general category Nd).
  The table lists the runs of Nd code points of Unicode 14.0 (CPython 3.11); inside every
  run the digit value of a code point is its offset from the start of the run modulo 10.
\<close>

definition decimal_ranges :: "(nat \<times> nat) list" where
  "decimal_ranges =
    [(48, 57), (1632, 1641), (1776, 1785), (1984, 1993), (2406, 2415), (2534, 2543),
     (2662, 2671), (2790, 2799), (2918, 2927), (3046, 3055), (3174, 3183), (3302, 3311),
     (3430, 3439), (3558, 3567), (3664, 3673), (3792, 3801), (3872, 3881), (4160, 4169),
     (4240, 4249), (6112, 6121), (6160, 6169), (6470, 6479), (6608, 6617), (6784, 6793),
     (6800, 6809), (6992, 7001), (7088, 7097), (7232, 7241), (7248, 7257), (42528, 42537),
     (43216, 43225), (43264, 43273), (43472, 43481), (43504, 43513), (43600, 43609),
     (44016, 44025), (65296, 65305), (66720, 66729), (68912, 68921), (69734, 69743),
     (69872, 69881), (69942, 69951), (70096, 70105), (70384, 70393), (70736, 70745),
     (70864, 70873), (71248, 71257), (71360, 71369), (71472, 71481), (71904, 71913),
     (72016, 72025), (72784, 72793), (73040, 73049), (73120, 73129), (92768, 92777),
     (92864, 92873), (93008, 93017), (120782, 120831), (123200, 123209), (123632, 123641),
     (125264, 125273), (130032, 130041)]"

text \<open>
  \<open>str.isdigit\<close> accepts the decimal digits and, in addition, the code points whose
  Unicode numeric type is "digit" (superscripts, circled digits and the like).
\<close>

definition other_digit_ranges :: "(nat \<times> nat) list" where
  "other_digit_ranges =
    [(178, 179), (185, 185), (4969, 4977), (6618, 6618), (8304, 8304), (8308, 8313),
     (8320, 8329), (9312, 9320), (9332, 9340), (9352, 9360), (9450, 9450), (9461, 9469),
     (9471, 9471), (10102, 10110), (10112, 10120), (10122, 10130), (68160, 68163),
     (69216, 69224), (69714, 69722), (127232, 127242)]"

fun find_range :: "(nat \<times> nat) list \<Rightarrow> nat \<Rightarrow> (nat \<times> nat) option" where
  "find_range [] c = None"
| "find_range ((lo, hi) # rs) c = (if lo \<le> c \<and> c \<le> hi then Some (lo, hi) else find_range rs c)"

definition decimal_value :: "nat \<Rightarrow> nat option" where
  "decimal_value c =
     (case find_range decimal_ranges c of None \<Rightarrow> None | Some (lo, hi) \<Rightarrow> Some ((c - lo) mod 10))"

definition isdecimal :: "nat \<Rightarrow> bool" where
  "isdecimal c = (decimal_value c \<noteq> None)"

definition isdigit_char :: "nat \<Rightarrow> bool" where
  "isdigit_char c = (isdecimal c \<or> find_range other_digit_ranges c \<noteq> None)"

text \<open>The specification's notion of a decimal digit: the ASCII characters 0 to 9.\<close>

definition is_ascii_digit :: "nat \<Rightarrow> bool" where
  "is_ascii_digit c = (48 \<le> c \<and> c \<le> 57)"

subsection \<open>Built-ins used by the source\<close>

datatype error = ValidationError py_str | ValueError | IndexError

text \<open>\<open>int(digit)\<close> for a string of one character: the digit value, or \<open>ValueError\<close>.\<close>

definition int_of_char :: "nat \<Rightarrow> error + int" where
  "int_of_char c = (case decimal_value c of None \<Rightarrow> Inl ValueError | Some v \<Rightarrow> Inr (int v))"

text \<open>\<open>str.isdigit\<close>: every character is a digit and there is at least one character.\<close>

definition isdigit :: "py_str \<Rightarrow> bool" where
  "isdigit s = (s \<noteq> [] \<and> list_all isdigit_char s)"

text \<open>\<open>re.sub(r"[^\d]", "", value)\<close>: scanning from the left, every character that
  matches the negated class is replaced by the empty string, every other one is copied.\<close>

fun re_sub_non_digit :: "py_str \<Rightarrow> py_str" where
  "re_sub_non_digit [] = []"
| "re_sub_non_digit (c # cs) =
     (if \<not> isdecimal c then [] @ re_sub_non_digit cs else c # re_sub_non_digit cs)"

text \<open>\<open>s.startswith(p)\<close> for a string and for a tuple of strings.\<close>

definition startswith :: "py_str \<Rightarrow> py_str \<Rightarrow> bool" where
  "startswith s p = (take (length p) s = p)"

definition startswith_any :: "py_str \<Rightarrow> py_str list \<Rightarrow> bool" where
  "startswith_any s ps = list_ex (startswith s) ps"

text \<open>The slice \<open>s[i:]\<close>: a negative start counts from the end and is clamped at 0.\<close>

definition slice_from :: "int \<Rightarrow> 'a list \<Rightarrow> 'a list" where
  "slice_from i xs =
     (let n = int (length xs);
          start = (if i < 0 then max (n + i) 0 else min i n)
      in drop (nat start) xs)"

text \<open>\<open>str.isspace\<close> on one character, and \<open>s.strip()\<close>, which removes the leading and the
  trailing whitespace characters.\<close>

definition space_ranges :: "(nat \<times> nat) list" where
  "space_ranges =
    [(9, 13), (28, 32), (133, 133), (160, 160), (5760, 5760), (8192, 8202), (8232, 8233),
     (8239, 8239), (8287, 8287), (12288, 12288)]"

definition isspace_char :: "nat \<Rightarrow> bool" where
  "isspace_char c = (find_range space_ranges c \<noteq> None)"

definition strip :: "py_str \<Rightarrow> py_str" where
  "strip s = rev (dropWhile isspace_char (rev (dropWhile isspace_char s)))"

text \<open>The format specification \<open>X\<close> on a non-negative integer: upper-case hexadecimal.\<close>

definition hex_digit :: "nat \<Rightarrow> nat" where
  "hex_digit d = (if d < 10 then 48 + d else 55 + d)"

fun format_X :: "nat \<Rightarrow> py_str" where
  "format_X n = (if n < 16 then [hex_digit n] else format_X (n div 16) @ [hex_digit (n mod 16)])"

declare format_X.simps [simp del]

section \<open>validators.py\<close>

datatype CardScheme = VISA | MASTERCARD | AMEX | DISCOVER | UNKNOWN

fun scheme_value :: "CardScheme \<Rightarrow> py_str" where
  "scheme_value VISA = py ''visa''"
| "scheme_value MASTERCARD = py ''mastercard''"
| "scheme_value AMEX = py ''amex''"
| "scheme_value DISCOVER = py ''discover''"
| "scheme_value UNKNOWN = py ''unknown''"

definition sanitize_number :: "py_str \<Rightarrow> py_str" where
  "sanitize_number v = re_sub_non_digit v"

definition validate_length :: "py_str \<Rightarrow> error + unit" where
  "validate_length number =
     (if \<not> (12 \<le> length number \<and> length number \<le> 19)
      then Inl (ValidationError (py ''Number must be between 12 and 19 digits.''))
      else Inr ())"

definition validate_digits :: "py_str \<Rightarrow> error + unit" where
  "validate_digits number =
     (if \<not> isdigit number
      then Inl (ValidationError (py ''Number must contain only digits.''))
      else Inr ())"

text \<open>The loop of \<open>luhn_check\<close> over \<open>enumerate(reverse_digits)\<close>: \<open>i\<close> is the index,
  \<open>tot\<close> the running sum (\<open>total\<close> in the source); \<open>int(digit)\<close> may raise.\<close>

fun luhn_loop :: "nat \<Rightarrow> int \<Rightarrow> py_str \<Rightarrow> error + int" where
  "luhn_loop i tot [] = Inr tot"
| "luhn_loop i tot (digit # rest) =
     (case int_of_char digit of
        Inl e \<Rightarrow> Inl e
      | Inr n \<Rightarrow>
          (let n' = (if i mod 2 = 1
                     then (let m = n * 2 in if m > 9 then m - 9 else m)
                     else n)
           in luhn_loop (i + 1) (tot + n') rest))"

definition luhn_check :: "py_str \<Rightarrow> error + bool" where
  "luhn_check number =
     (let reverse_digits = rev number
      in case luhn_loop 0 0 reverse_digits of
           Inl e \<Rightarrow> Inl e
         | Inr tot \<Rightarrow> Inr (tot mod 10 = 0))"

definition detect_scheme :: "py_str \<Rightarrow> py_str" where
  "detect_scheme number =
     (if startswith number (py ''4'') then scheme_value VISA
      else if startswith_any number [py ''51'', py ''52'', py ''53'', py ''54'', py ''55'']
        then scheme_value MASTERCARD
      else if startswith_any number [py ''34'', py ''37''] then scheme_value AMEX
      else if startswith number (py ''6'') then scheme_value DISCOVER
      else scheme_value UNKNOWN)"

definition mask_number_for_logging :: "py_str \<Rightarrow> py_str" where
  "mask_number_for_logging number =
     (if length number < 4 then py ''****''
      else py ''****'' @ slice_from (- 4) number)"

section \<open>serializers.py\<close>

text \<open>
  \<open>ValidateSerializer.validate_number\<close>: the field-level hook the serializer calls with
  the string value of the field \<open>number\<close>. A \<open>ValidationError\<close> raised by one of the
  checks leaves the function at once.
\<close>

definition validate_number :: "py_str \<Rightarrow> error + py_str" where
  "validate_number v =
     (let sanitized = sanitize_number v
      in case validate_length sanitized of
           Inl e \<Rightarrow> Inl e
         | Inr _ \<Rightarrow>
             (case validate_digits sanitized of
                Inl e \<Rightarrow> Inl e
              | Inr _ \<Rightarrow> Inr sanitized))"

text \<open>
  The field is declared as \<open>number = serializers.CharField()\<close>. Before the serializer
  calls \<open>validate_number\<close> it runs the field's own validation, which with the defaults of
  that declaration (required, blank not allowed, whitespace trimmed) does the following
  to the value of the key \<open>number\<close> of the request data, here a string or absent:
  an absent key is an error; a string that is empty, or empty once stripped, is an error;
  otherwise the value is the stripped string, on which the field's two validators run,
  the one that prohibits the NUL character and the one that prohibits surrogate code
  points, their messages collected in this order. The result is the list of error
  messages of the field, or the value handed on to \<open>validate_number\<close>.
\<close>

definition ProhibitNullCharactersValidator :: "py_str \<Rightarrow> py_str list" where
  "ProhibitNullCharactersValidator v =
     (if 0 \<in> set v then [py ''Null characters are not allowed.''] else [])"

definition ProhibitSurrogateCharactersValidator :: "py_str \<Rightarrow> py_str list" where
  "ProhibitSurrogateCharactersValidator v =
     (case filter (\<lambda>ch. 55296 \<le> ch \<and> ch \<le> 57343) v of
        [] \<Rightarrow> []
      | surrogate_character # _ \<Rightarrow>
          [py ''Surrogate characters are not allowed: U+'' @ format_X surrogate_character @ py ''.''])"

definition char_field_run_validation :: "py_str option \<Rightarrow> py_str list + py_str" where
  "char_field_run_validation field_data =
     (case field_data of
        None \<Rightarrow> Inl [py ''This field is required.'']
      | Some d \<Rightarrow>
          if d = [] \<or> strip d = [] then Inl [py ''This field may not be blank.'']
          else (let v = strip d;
                    errors = ProhibitNullCharactersValidator v
                             @ ProhibitSurrogateCharactersValidator v
                in if errors \<noteq> [] then Inl errors else Inr v))"

text \<open>
  \<open>serializer.is_valid()\<close> for \<open>ValidateSerializer\<close>: the field validation, then
  \<open>validate_number\<close>; a \<open>ValidationError\<close> of either is caught and recorded under the name
  of the field. The result is \<open>serializer.errors\<close> (a dictionary from field names to lists
  of messages) when the data is not valid, and \<open>serializer.validated_data['number']\<close>
  when it is. Any other exception is not caught.
\<close>

definition serializer_is_valid ::
  "py_str option \<Rightarrow> error + ((py_str \<times> py_str list) list + py_str)" where
  "serializer_is_valid field_data =
     (case char_field_run_validation field_data of
        Inl detail \<Rightarrow> Inr (Inl [(py ''number'', detail)])
      | Inr v \<Rightarrow>
          (case validate_number v of
             Inl (ValidationError m) \<Rightarrow> Inr (Inl [(py ''number'', [m])])
           | Inl ValueError \<Rightarrow> Inl ValueError
           | Inl IndexError \<Rightarrow> Inl IndexError
           | Inr validated \<Rightarrow> Inr (Inr validated)))"

section \<open>views.py\<close>

text \<open>
  \<open>ValidateView.post\<close>. The request is represented by what the handler reads from it: the
  attribute \<open>request_id\<close> that \<open>getattr\<close> looks up, absent or present, and the value of the
  key \<open>number\<close> of \<open>request.data\<close>, absent or a string. The handler returns a \<open>Response\<close>
  (a dictionary, kept in insertion order, and a status code) and emits at most one call
  to \<open>logger.info\<close>, returned here beside the response. An exception that is not a
  \<open>ValidationError\<close> is not caught by the handler.
\<close>

datatype json = JBool bool | JStr py_str

record response =
  data :: "(py_str \<times> json) list"
  status_code :: nat

record log_call =
  msg :: py_str
  extra :: "(py_str \<times> json) list"

definition post :: "py_str option \<Rightarrow> py_str option \<Rightarrow> error + (log_call list \<times> response)" where
  "post request_id field_data =
     (case serializer_is_valid field_data of
        Inl e \<Rightarrow> Inl e
      | Inr (Inl errors) \<Rightarrow>
          (let field_errors = map snd errors
           in case field_errors of
                [] \<Rightarrow>
                  Inr ([], \<lparr>data = [(py ''error'', JStr (py ''Invalid input''))], status_code = 400\<rparr>)
              | [] # _ \<Rightarrow> Inl IndexError
              | (error_message # _) # _ \<Rightarrow>
                  Inr ([], \<lparr>data = [(py ''error'', JStr error_message)], status_code = 400\<rparr>))
      | Inr (Inr number) \<Rightarrow>
          (case luhn_check number of
             Inl e \<Rightarrow> Inl e
           | Inr is_valid \<Rightarrow>
               (let scheme = detect_scheme number;
                    logged = \<lparr>msg = py ''Card validation completed'',
                              extra = [(py ''scheme'', JStr scheme),
                                       (py ''valid'', JBool is_valid),
                                       (py ''masked_number'', JStr (mask_number_for_logging number)),
                                       (py ''request_id'',
                                          JStr (case request_id of None \<Rightarrow> py ''-'' | Some r \<Rightarrow> r))]\<rparr>
                in Inr ([logged],
                        \<lparr>data = [(py ''valid'', JBool is_valid),
                                 (py ''scheme'', JStr scheme),
                                 (py ''message'',
                                    JStr (if is_valid then py ''OK'' else py ''Invalid card number''))],
                         status_code = 200\<rparr>))))"

section \<open>The checksum as the specification words it\<close>

text \<open>
  The specification's description of the Luhn total, independent of the loop above:
  position \<open>i\<close> counts from the rightmost digit, starting at 0; a digit at an odd position
  is doubled, and 9 is subtracted when the doubled value exceeds 9; the total is the sum
  of the resulting values. The value of an ASCII digit is its code point minus 48.
\<close>

definition spec_luhn_term :: "nat \<Rightarrow> int \<Rightarrow> int" where
  "spec_luhn_term i d = (if odd i then (if 2 * d > 9 then 2 * d - 9 else 2 * d) else d)"

definition spec_luhn_total :: "py_str \<Rightarrow> int" where
  "spec_luhn_total number =
     sum_list (map (\<lambda>(i, c). spec_luhn_term i (int c - 48)) (enumerate 0 (rev number)))"

section \<open>Auxiliary facts\<close>

lemma py_simps: "py [] = []" "py (c # cs) = of_char c # py cs"
  by (simp_all add: py_def)

lemmas table_defs = int_of_char_def decimal_value_def decimal_ranges_def

subsection \<open>ASCII digits within the Unicode tables\<close>

lemma decimal_value_ascii: "is_ascii_digit c \<Longrightarrow> decimal_value c = Some (c - 48)"
  by (auto simp: is_ascii_digit_def decimal_value_def decimal_ranges_def)

lemma isdecimal_below_128: "c < 128 \<Longrightarrow> isdecimal c = is_ascii_digit c"
  by (auto simp: is_ascii_digit_def isdecimal_def decimal_value_def decimal_ranges_def)


lemma is_ascii_digit_isdecimal: "is_ascii_digit c \<Longrightarrow> isdecimal c"
  by (simp add: isdecimal_def decimal_value_ascii)

lemma int_of_char_ascii: "is_ascii_digit c \<Longrightarrow> int_of_char c = Inr (int c - 48)"
  by (simp add: int_of_char_def decimal_value_ascii is_ascii_digit_def)

lemma int_of_char_decimal: "isdecimal c \<Longrightarrow> \<exists>n. int_of_char c = Inr n"
  by (auto simp: int_of_char_def isdecimal_def)

subsection \<open>The sanitizer is a filter\<close>

lemma sanitize_number_filter: "sanitize_number s = filter isdecimal s"
  unfolding sanitize_number_def by (induction s) auto

subsection \<open>The loop of the checksum\<close>

text \<open>On ASCII digits the loop adds, to the running sum, the specification's terms
  for the positions \<open>i\<close>, \<open>i + 1\<close>, ... of the remaining characters.\<close>

lemma luhn_loop_ascii:
  "list_all is_ascii_digit xs \<Longrightarrow>
   luhn_loop i tot xs =
     Inr (tot + sum_list (map (\<lambda>(j, c). spec_luhn_term j (int c - 48)) (enumerate i xs)))"
proof (induction xs arbitrary: i tot)
  case Nil
  then show ?case by simp
next
  case (Cons c cs)
  then have c: "int_of_char c = Inr (int c - 48)" and cs: "list_all is_ascii_digit cs"
    by (simp_all add: int_of_char_ascii)
  show ?case
    by (simp add: c Cons.IH [OF cs] spec_luhn_term_def Let_def odd_iff_mod_2_eq_one)
qed

lemma luhn_check_ascii:
  "list_all is_ascii_digit s \<Longrightarrow> luhn_check s = Inr (spec_luhn_total s mod 10 = 0)"
proof -
  assume "list_all is_ascii_digit s"
  then have "list_all is_ascii_digit (rev s)" by (simp add: list_all_iff)
  from luhn_loop_ascii [OF this, of 0 0] show ?thesis
    by (simp add: luhn_check_def spec_luhn_total_def)
qed

text \<open>On Unicode decimal digits \<open>int\<close> never raises, so the loop runs to its end.\<close>

lemma luhn_loop_decimal:
  "list_all isdecimal xs \<Longrightarrow> \<exists>t. luhn_loop i tot xs = Inr t"
proof (induction xs arbitrary: i tot)
  case Nil
  then show ?case by simp
next
  case (Cons c cs)
  from Cons.prems have "isdecimal c" by simp
  then obtain n where n: "int_of_char c = Inr n"
    using int_of_char_decimal by blast
  from Cons show ?case by (simp add: n Let_def)
qed

lemma luhn_check_decimal: "list_all isdecimal s \<Longrightarrow> \<exists>b. luhn_check s = Inr b"
proof -
  assume "list_all isdecimal s"
  then have "list_all isdecimal (rev s)" by (simp add: list_all_iff)
  from luhn_loop_decimal [OF this, of 0 0] show ?thesis
    by (auto simp: luhn_check_def)
qed

subsection \<open>Prefix tests and slices\<close>

lemma startswith_prefix: "startswith s p = prefix p s"
  by (auto simp: startswith_def prefix_def) (metis append_take_drop_id)

lemma startswith_any_prefix: "startswith_any s ps = (\<exists>p \<in> set ps. prefix p s)"
  by (simp add: startswith_any_def list_ex_iff startswith_prefix)

lemma scheme_value_inj: "scheme_value a = scheme_value b \<Longrightarrow> a = b"
  by (cases a; cases b; simp add: py_simps)

lemma slice_from_last4: "4 \<le> length s \<Longrightarrow> slice_from (- 4) s = drop (length s - 4) s"
  by (simp add: slice_from_def Let_def max_def nat_diff_distrib')

subsection \<open>Stripping whitespace does not change the sanitized number\<close>

lemma isspace_char_not_isdecimal: "isspace_char c \<Longrightarrow> \<not> isdecimal c"
  by (auto simp: isspace_char_def space_ranges_def isdecimal_def decimal_value_def
      decimal_ranges_def split: if_splits)

lemma filter_dropWhile_disjoint:
  "(\<And>x. P x \<Longrightarrow> \<not> Q x) \<Longrightarrow> filter Q (dropWhile P xs) = filter Q xs"
  by (induction xs) auto

lemma sanitize_number_strip: "sanitize_number (strip s) = sanitize_number s"
proof -
  have "filter isdecimal (dropWhile isspace_char xs) = filter isdecimal xs" for xs
    by (rule filter_dropWhile_disjoint) (rule isspace_char_not_isdecimal)
  then show ?thesis
    by (simp add: sanitize_number_filter strip_def rev_filter [symmetric])
qed

lemma set_strip: "set (strip s) \<subseteq> set s"
proof -
  have "set (dropWhile isspace_char xs) \<subseteq> set xs" for xs
    by (auto dest: set_dropWhileD)
  from this [of "rev (dropWhile isspace_char s)"] this [of s] show ?thesis
    by (auto simp: strip_def)
qed

section \<open>The Luhn checksum\<close>

text \<open>
  C1. For every non-empty string of decimal digits (ASCII 0 to 9), \<open>luhn_check\<close> returns
  true if and only if the total described by the specification is divisible by 10: going
  from the rightmost digit to the leftmost, a digit at an odd zero-based position is
  doubled, with 9 subtracted when the doubled value exceeds 9, a digit at an even position
  is kept, and the resulting values are summed. In particular the check accepts
  4532015112830366 and 0000000000000000 and rejects 4532015112830367.
\<close>

theorem luhn_check_spec:
  "(\<forall>number. number \<noteq> [] \<and> list_all is_ascii_digit number \<longrightarrow>
       luhn_check number = Inr (spec_luhn_total number mod 10 = 0))
   \<and> luhn_check (py ''4532015112830366'') = Inr True
   \<and> luhn_check (py ''4532015112830367'') = Inr False
   \<and> luhn_check (py ''0000000000000000'') = Inr True"
proof (intro conjI allI impI)
  fix number assume "number \<noteq> [] \<and> list_all is_ascii_digit number"
  then show "luhn_check number = Inr (spec_luhn_total number mod 10 = 0)"
    by (simp add: luhn_check_ascii)
next
  show "luhn_check (py ''4532015112830366'') = Inr True"
    by (simp add: luhn_check_def py_simps table_defs)
next
  show "luhn_check (py ''4532015112830367'') = Inr False"
    by (simp add: luhn_check_def py_simps table_defs)
next
  show "luhn_check (py ''0000000000000000'') = Inr True"
    by (simp add: luhn_check_def py_simps table_defs)
qed

theorem luhn_check_spec_witness:
  "py ''79927398713'' \<noteq> [] \<and> list_all is_ascii_digit (py ''79927398713'')
   \<and> spec_luhn_total (py ''79927398713'') = 70
   \<and> luhn_check (py ''79927398713'') = Inr True"
proof -
  have h: "py ''79927398713'' \<noteq> [] \<and> list_all is_ascii_digit (py ''79927398713'')"
    by (simp add: py_simps is_ascii_digit_def)
  have t: "spec_luhn_total (py ''79927398713'') = 70"
    by (simp add: spec_luhn_total_def spec_luhn_term_def py_simps enumerate_eq_zip upt_rec)
  from luhn_check_spec h
  have "luhn_check (py ''79927398713'') = Inr (spec_luhn_total (py ''79927398713'') mod 10 = 0)"
    by blast
  with h t show ?thesis by simp
qed

text \<open>
  C8. \<open>luhn_check\<close> applied to the empty string returns true: the loop body never runs,
  the total stays 0, and 0 modulo 10 equals 0.
\<close>

theorem luhn_check_empty: "luhn_check [] = Inr True"
  by (simp add: luhn_check_def)

section \<open>Scheme detection\<close>

text \<open>
  C2. For every string, \<open>detect_scheme\<close> returns the value of exactly one scheme, the one
  of the first matching rule of the ordered cascade: visa when the string starts with 4;
  otherwise mastercard when it starts with 51, 52, 53, 54 or 55; otherwise amex when it
  starts with 34 or 37; otherwise discover when it starts with 6; otherwise unknown. The
  function is total: it returns a value on every string, of any length.
\<close>

theorem detect_scheme_cascade:
  "detect_scheme s = scheme_value
     (if prefix (py ''4'') s then VISA
      else if \<exists>p \<in> {py ''51'', py ''52'', py ''53'', py ''54'', py ''55''}. prefix p s then MASTERCARD
      else if \<exists>p \<in> {py ''34'', py ''37''}. prefix p s then AMEX
      else if prefix (py ''6'') s then DISCOVER
      else UNKNOWN)
   \<and> (\<exists>!k. detect_scheme s = scheme_value k)"
proof
  show c: "detect_scheme s = scheme_value
     (if prefix (py ''4'') s then VISA
      else if \<exists>p \<in> {py ''51'', py ''52'', py ''53'', py ''54'', py ''55''}. prefix p s then MASTERCARD
      else if \<exists>p \<in> {py ''34'', py ''37''}. prefix p s then AMEX
      else if prefix (py ''6'') s then DISCOVER
      else UNKNOWN)"
    unfolding detect_scheme_def startswith_prefix startswith_any_prefix by simp
  show "\<exists>!k. detect_scheme s = scheme_value k"
    unfolding c by (blast dest: scheme_value_inj)
qed

theorem detect_scheme_cascade_witness:
  "detect_scheme (py ''4532015112830366'') = py ''visa''
   \<and> detect_scheme (py ''5425233430109903'') = py ''mastercard''
   \<and> detect_scheme (py ''374245455400126'') = py ''amex''
   \<and> detect_scheme (py ''6011000000000012'') = py ''discover''
   \<and> detect_scheme (py ''9999999999999999'') = py ''unknown''
   \<and> detect_scheme (py ''5'') = py ''unknown''"
  using detect_scheme_cascade [of "py ''4532015112830366''"]
    detect_scheme_cascade [of "py ''5425233430109903''"]
    detect_scheme_cascade [of "py ''374245455400126''"]
    detect_scheme_cascade [of "py ''6011000000000012''"]
    detect_scheme_cascade [of "py ''9999999999999999''"]
    detect_scheme_cascade [of "py ''5''"]
  by (simp add: py_simps)

text \<open>
  C10. \<open>detect_scheme\<close> applied to the empty string returns the value of \<open>UNKNOWN\<close>:
  none of the prefixes matches, so the last branch is taken, and nothing is raised.
\<close>

theorem detect_scheme_empty:
  "detect_scheme [] = scheme_value UNKNOWN \<and> detect_scheme [] = py ''unknown''"
  by (simp add: detect_scheme_def startswith_def startswith_any_def py_def)

section \<open>Sanitizing\<close>

text \<open>
  C3, as stated, fails. The claim says that the result of \<open>sanitize_number\<close> contains only
  the ASCII characters 0 to 9. The class \<open>\d\<close> of the pattern is the Unicode class of decimal
  digits, so the one-character string made of U+0663 (ARABIC-INDIC DIGIT THREE, code
  point 1635) is returned unchanged.
\<close>

theorem sanitize_number_counterexample:
  "sanitize_number [1635] = [1635] \<and> \<not> list_all is_ascii_digit (sanitize_number [1635])"
  by (simp add: sanitize_number_def isdecimal_def decimal_value_def decimal_ranges_def
      is_ascii_digit_def)

text \<open>
  C3, amended. For every string \<open>s\<close>, \<open>sanitize_number s\<close> is a value (there is no error
  path; the result may be empty), contains only Unicode decimal digits (the characters
  that \<open>\d\<close> matches, among them the ASCII characters 0 to 9), and is exactly the
  subsequence of \<open>s\<close> obtained by removing every character that is not such a digit, the
  order of the others kept. When \<open>s\<close> has only ASCII characters, the result is \<open>s\<close> without
  its characters other than 0 to 9, and so contains only the ASCII characters 0 to 9.
\<close>

theorem sanitize_number_decimal:
  "sanitize_number s = filter isdecimal s
   \<and> subseq (sanitize_number s) s
   \<and> list_all isdecimal (sanitize_number s)
   \<and> (\<forall>c. is_ascii_digit c \<longrightarrow> isdecimal c)
   \<and> (list_all (\<lambda>c. c < 128) s \<longrightarrow>
        sanitize_number s = filter is_ascii_digit s \<and> list_all is_ascii_digit (sanitize_number s))"
proof (intro conjI allI impI)
  show "sanitize_number s = filter isdecimal s" by (rule sanitize_number_filter)
  show "subseq (sanitize_number s) s" by (simp add: sanitize_number_filter)
  show "list_all isdecimal (sanitize_number s)" by (simp add: sanitize_number_filter list_all_iff)
  show "isdecimal c" if "is_ascii_digit c" for c using that by (rule is_ascii_digit_isdecimal)
next
  assume a: "list_all (\<lambda>c. c < 128) s"
  then have "filter isdecimal s = filter is_ascii_digit s"
    by (intro filter_cong refl) (simp add: list_all_iff isdecimal_below_128)
  then show "sanitize_number s = filter is_ascii_digit s" by (simp add: sanitize_number_filter)
  then show "list_all is_ascii_digit (sanitize_number s)" by (simp add: list_all_iff)
qed

theorem sanitize_number_decimal_witness:
  "list_all (\<lambda>c. c < 128) (py ''4532-0151 1283-0366'')
   \<and> sanitize_number (py ''4532-0151 1283-0366'') = py ''4532015112830366''
   \<and> sanitize_number [97, 1635, 45, 52] = [1635, 52]"
proof -
  have h: "list_all (\<lambda>c. c < 128) (py ''4532-0151 1283-0366'')" by (simp add: py_simps)
  have "sanitize_number (py ''4532-0151 1283-0366'') = filter is_ascii_digit (py ''4532-0151 1283-0366'')"
    using sanitize_number_decimal [of "py ''4532-0151 1283-0366''"] h by blast
  moreover have "sanitize_number [97, 1635, 45, 52] = filter isdecimal [97, 1635, 45, 52]"
    using sanitize_number_decimal [of "[97, 1635, 45, 52]"] by blast
  ultimately show ?thesis using h
    by (simp add: py_simps is_ascii_digit_def isdecimal_def decimal_value_def decimal_ranges_def)
qed

text \<open>
  C9. \<open>sanitize_number\<close> is idempotent: sanitizing a sanitized string changes nothing; and
  it is the identity on every string that consists only of the decimal digit characters
  0 to 9.
\<close>

theorem sanitize_number_idempotent:
  "sanitize_number (sanitize_number s) = sanitize_number s
   \<and> (list_all is_ascii_digit s \<longrightarrow> sanitize_number s = s)"
proof
  show "sanitize_number (sanitize_number s) = sanitize_number s"
    by (simp add: sanitize_number_filter)
  show "list_all is_ascii_digit s \<longrightarrow> sanitize_number s = s"
    by (auto simp: sanitize_number_filter list_all_iff is_ascii_digit_isdecimal filter_id_conv)
qed

theorem sanitize_number_idempotent_witness:
  "list_all is_ascii_digit (py ''4532015112830366'')
   \<and> sanitize_number (py ''4532015112830366'') = py ''4532015112830366''
   \<and> sanitize_number (sanitize_number (py ''12 ab-34'')) = sanitize_number (py ''12 ab-34'')"
proof -
  have h: "list_all is_ascii_digit (py ''4532015112830366'')"
    by (simp add: py_simps is_ascii_digit_def)
  show ?thesis
    using h sanitize_number_idempotent [of "py ''4532015112830366''"]
      sanitize_number_idempotent [of "py ''12 ab-34''"]
    by blast
qed

section \<open>Structural validation\<close>

text \<open>
  C5. For every string, \<open>validate_length\<close> fails if and only if the number of characters is
  outside the inclusive range from 12 to 19, and the failure is the validation error with
  the message about the length; in particular strings of 12 and of 19 characters pass and
  strings of 11 and of 20 characters fail.
\<close>

theorem validate_length_range:
  "(isl (validate_length s) \<longleftrightarrow> length s < 12 \<or> 19 < length s)
   \<and> (isl (validate_length s) \<longrightarrow>
        validate_length s = Inl (ValidationError (py ''Number must be between 12 and 19 digits.'')))
   \<and> (length s = 12 \<or> length s = 19 \<longrightarrow> validate_length s = Inr ())
   \<and> (length s = 11 \<or> length s = 20 \<longrightarrow> isl (validate_length s))"
  by (auto simp: validate_length_def)

theorem validate_length_range_witness:
  "validate_length (py ''123456789012'') = Inr ()
   \<and> validate_length (py ''1234567890123456789'') = Inr ()
   \<and> validate_length (py ''12345678901'') =
        Inl (ValidationError (py ''Number must be between 12 and 19 digits.''))
   \<and> validate_length (py ''12345678901234567890'') =
        Inl (ValidationError (py ''Number must be between 12 and 19 digits.''))"
  using validate_length_range [of "py ''123456789012''"]
    validate_length_range [of "py ''1234567890123456789''"]
    validate_length_range [of "py ''12345678901''"]
    validate_length_range [of "py ''12345678901234567890''"]
  by (simp add: py_def)




section \<open>Masking\<close>

text \<open>
  C7. For every string with fewer than 4 characters, \<open>mask_number_for_logging\<close> returns
  exactly the string of 4 asterisks; for every string with 4 or more characters it returns
  the 4 asterisks followed by exactly the last 4 characters of the input, whatever the
  length of the input, so that the result has exactly 8 characters. In particular
  4532015112830366 is masked as ****0366, 123 as ****, and 1234 as ****1234.
\<close>

theorem mask_number_for_logging_spec:
  "py ''****'' = replicate 4 (of_char CHR ''*'')
   \<and> (length s < 4 \<longrightarrow> mask_number_for_logging s = py ''****'')
   \<and> (4 \<le> length s \<longrightarrow>
         (\<exists>pre suf. s = pre @ suf \<and> length suf = 4
                     \<and> mask_number_for_logging s = py ''****'' @ suf)
         \<and> length (mask_number_for_logging s) = 8)
   \<and> mask_number_for_logging (py ''4532015112830366'') = py ''****0366''
   \<and> mask_number_for_logging (py ''123'') = py ''****''
   \<and> mask_number_for_logging (py ''1234'') = py ''****1234''"
proof (intro conjI impI)
  show "py ''****'' = replicate 4 (of_char CHR ''*'')"
    by (simp add: py_simps numeral_eq_Suc)
  show "mask_number_for_logging s = py ''****''" if "length s < 4"
    using that by (simp add: mask_number_for_logging_def)
  show "\<exists>pre suf. s = pre @ suf \<and> length suf = 4 \<and> mask_number_for_logging s = py ''****'' @ suf"
    if "4 \<le> length s"
  proof (intro exI conjI)
    show "s = take (length s - 4) s @ drop (length s - 4) s" by simp
    show "length (drop (length s - 4) s) = 4" using that by simp
    show "mask_number_for_logging s = py ''****'' @ drop (length s - 4) s"
      using that by (simp add: mask_number_for_logging_def slice_from_last4)
  qed
  show "length (mask_number_for_logging s) = 8" if "4 \<le> length s"
    using that by (simp add: mask_number_for_logging_def slice_from_last4 py_def)
  show "mask_number_for_logging (py ''4532015112830366'') = py ''****0366''"
    by (simp add: mask_number_for_logging_def slice_from_def py_simps)
  show "mask_number_for_logging (py ''123'') = py ''****''"
    by (simp add: mask_number_for_logging_def py_simps)
  show "mask_number_for_logging (py ''1234'') = py ''****1234''"
    by (simp add: mask_number_for_logging_def slice_from_def py_simps)
qed

theorem mask_number_for_logging_spec_witness:
  "length (py ''12'') < 4 \<and> mask_number_for_logging (py ''12'') = py ''****''
   \<and> 4 \<le> length (py ''1234567890123456789'')
   \<and> length (mask_number_for_logging (py ''1234567890123456789'')) = 8"
proof -
  have a: "length (py ''12'') < 4" by (simp add: py_def)
  have b: "4 \<le> length (py ''1234567890123456789'')" by (simp add: py_def)
  show ?thesis
    using a b mask_number_for_logging_spec [of "py ''12''"]
      mask_number_for_logging_spec [of "py ''1234567890123456789''"]
    by blast
qed

section \<open>The request handler\<close>

text \<open>
  C4, as stated, fails. The claim promises success for every raw input whose sanitized
  form passes the length check and the digit check. The field \<open>number\<close> is a \<open>CharField\<close>,
  whose own validation runs before \<open>validate_number\<close> and rejects a string with a NUL
  character: for the 16 digits 4532015112830366 followed by NUL the sanitized form passes
  both checks, and the handler answers with status 400 and an error message.
\<close>

theorem post_counterexample:
  "validate_length (sanitize_number (py ''4532015112830366'' @ [0])) = Inr ()
   \<and> validate_digits (sanitize_number (py ''4532015112830366'' @ [0])) = Inr ()
   \<and> post None (Some (py ''4532015112830366'' @ [0])) =
       Inr ([], \<lparr>data = [(py ''error'', JStr (py ''Null characters are not allowed.''))],
                 status_code = 400\<rparr>)"
proof -
  have s: "sanitize_number (py ''4532015112830366'' @ [0]) = py ''4532015112830366''"
    by (simp add: py_simps sanitize_number_def isdecimal_def decimal_value_def decimal_ranges_def)
  have d: "isdigit_char c" if "is_ascii_digit c" for c
    using that by (simp add: isdigit_char_def is_ascii_digit_isdecimal)
  have t: "strip (py ''4532015112830366'' @ [0]) = py ''4532015112830366'' @ [0]"
    by (simp add: strip_def py_simps isspace_char_def space_ranges_def)
  have v: "char_field_run_validation (Some (py ''4532015112830366'' @ [0])) =
             Inl [py ''Null characters are not allowed.'']"
    unfolding char_field_run_validation_def option.case t
    by (simp add: ProhibitNullCharactersValidator_def ProhibitSurrogateCharactersValidator_def
        py_simps)
  have p: "post None (Some (py ''4532015112830366'' @ [0])) =
             Inr ([], \<lparr>data = [(py ''error'', JStr (py ''Null characters are not allowed.''))],
                       status_code = 400\<rparr>)"
    unfolding post_def serializer_is_valid_def v by simp
  have l: "validate_length (py ''4532015112830366'') = Inr ()"
    by (simp add: validate_length_def py_def)
  have g: "validate_digits (py ''4532015112830366'') = Inr ()"
    by (simp add: validate_digits_def isdigit_def py_simps d is_ascii_digit_def)
  from p l g show ?thesis unfolding s by (intro conjI)
qed

text \<open>
  C4, amended. For every raw input string that contains no NUL character and no
  surrogate code point (the strings that the field's own validation lets through, given
  the next condition) and whose sanitized form passes the length check and the digit
  check, the handler succeeds: it answers with status 200 and a body whose field \<open>valid\<close>
  is the result of \<open>luhn_check\<close> on the sanitized number, whose field \<open>scheme\<close> is the
  result of \<open>detect_scheme\<close> on the sanitized number, whether or not the checksum holds,
  and whose field \<open>message\<close> is OK when the checksum holds and "Invalid card number"
  otherwise. A failed checksum is not an error: \<open>luhn_check\<close> returns a value on every
  sanitized number, and the answer has no field \<open>error\<close>.
\<close>

theorem post_valid_input:
  "0 \<notin> set raw \<and> (\<forall>c \<in> set raw. \<not> (55296 \<le> c \<and> c \<le> 57343))
   \<and> validate_length (sanitize_number raw) = Inr ()
   \<and> validate_digits (sanitize_number raw) = Inr ()
   \<Longrightarrow> \<exists>is_valid logged.
         luhn_check (sanitize_number raw) = Inr is_valid
         \<and> post request_id (Some raw) =
             Inr (logged,
                  \<lparr>data = [(py ''valid'', JBool is_valid),
                           (py ''scheme'', JStr (detect_scheme (sanitize_number raw))),
                           (py ''message'',
                              JStr (if is_valid then py ''OK'' else py ''Invalid card number''))],
                   status_code = 200\<rparr>)"
proof -
  assume a: "0 \<notin> set raw \<and> (\<forall>c \<in> set raw. \<not> (55296 \<le> c \<and> c \<le> 57343))
             \<and> validate_length (sanitize_number raw) = Inr ()
             \<and> validate_digits (sanitize_number raw) = Inr ()"
  then have "12 \<le> length (sanitize_number raw)"
    by (simp add: validate_length_def split: if_splits)
  then have ne: "sanitize_number raw \<noteq> []" by auto
  have raw: "raw \<noteq> []"
    using ne by (auto simp: sanitize_number_filter)
  have st: "strip raw \<noteq> []"
    using ne sanitize_number_strip [of raw] by (auto simp: sanitize_number_filter)
  have nul: "ProhibitNullCharactersValidator (strip raw) = []"
    using a set_strip [of raw] by (auto simp: ProhibitNullCharactersValidator_def)
  have "filter (\<lambda>ch. 55296 \<le> ch \<and> ch \<le> 57343) (strip raw) = []"
    using a set_strip [of raw] by (auto simp: filter_empty_conv)
  then have sur: "ProhibitSurrogateCharactersValidator (strip raw) = []"
    by (simp add: ProhibitSurrogateCharactersValidator_def)
  have f: "char_field_run_validation (Some raw) = Inr (strip raw)"
    by (simp add: char_field_run_validation_def raw st nul sur)
  have v: "validate_number (strip raw) = Inr (sanitize_number raw)"
    using a by (simp add: validate_number_def sanitize_number_strip)
  have ok: "serializer_is_valid (Some raw) = Inr (Inr (sanitize_number raw))"
    by (simp add: serializer_is_valid_def f v)
  have "list_all isdecimal (sanitize_number raw)"
    by (simp add: sanitize_number_filter list_all_iff)
  then obtain b where b: "luhn_check (sanitize_number raw) = Inr b"
    using luhn_check_decimal by blast
  show ?thesis
    by (simp add: post_def ok b Let_def)
qed

theorem post_valid_input_witness:
  "(\<exists>logged. post None (Some (py ''4532 0151 1283 0366'')) =
      Inr (logged, \<lparr>data = [(py ''valid'', JBool True), (py ''scheme'', JStr (py ''visa'')),
                            (py ''message'', JStr (py ''OK''))], status_code = 200\<rparr>))
   \<and> (\<exists>logged. post None (Some (py ''5425233430109904'')) =
      Inr (logged, \<lparr>data = [(py ''valid'', JBool False), (py ''scheme'', JStr (py ''mastercard'')),
                            (py ''message'', JStr (py ''Invalid card number''))], status_code = 200\<rparr>))"
proof -
  have s1: "sanitize_number (py ''4532 0151 1283 0366'') = py ''4532015112830366''"
    by (simp add: py_simps sanitize_number_def isdecimal_def decimal_value_def decimal_ranges_def)
  have s2: "sanitize_number (py ''5425233430109904'') = py ''5425233430109904''"
    by (simp add: py_simps sanitize_number_def isdecimal_def decimal_value_def decimal_ranges_def)
  have d: "isdigit_char c" if "is_ascii_digit c" for c
    using that by (simp add: isdigit_char_def is_ascii_digit_isdecimal)
  have h1: "0 \<notin> set (py ''4532 0151 1283 0366'')
            \<and> (\<forall>c \<in> set (py ''4532 0151 1283 0366''). \<not> (55296 \<le> c \<and> c \<le> 57343))
            \<and> validate_length (sanitize_number (py ''4532 0151 1283 0366'')) = Inr ()
            \<and> validate_digits (sanitize_number (py ''4532 0151 1283 0366'')) = Inr ()"
    unfolding s1
    by (simp add: validate_length_def validate_digits_def isdigit_def py_simps d is_ascii_digit_def)
  have h2: "0 \<notin> set (py ''5425233430109904'')
            \<and> (\<forall>c \<in> set (py ''5425233430109904''). \<not> (55296 \<le> c \<and> c \<le> 57343))
            \<and> validate_length (sanitize_number (py ''5425233430109904'')) = Inr ()
            \<and> validate_digits (sanitize_number (py ''5425233430109904'')) = Inr ()"
    unfolding s2
    by (simp add: validate_length_def validate_digits_def isdigit_def py_simps d is_ascii_digit_def)
  have l1: "luhn_check (py ''4532015112830366'') = Inr True"
    by (simp add: luhn_check_def py_simps table_defs)
  have l2: "luhn_check (py ''5425233430109904'') = Inr False"
    by (simp add: luhn_check_def py_simps table_defs)
  have d1: "detect_scheme (py ''4532015112830366'') = py ''visa''"
    by (simp add: detect_scheme_def startswith_def startswith_any_def py_simps)
  have d2: "detect_scheme (py ''5425233430109904'') = py ''mastercard''"
    by (simp add: detect_scheme_def startswith_def startswith_any_def py_simps)
  show ?thesis
    using post_valid_input [OF h1, of None] post_valid_input [OF h2, of None]
    unfolding s1 s2 l1 l2 d1 d2 by auto
qed

end
